theory Spec2Isabelle
  imports Complex_Main "HOL-Library.Sublist"
begin

section \<open>Python values and dictionaries\<close>

text \<open>
  The pipeline passes news articles around as Python dictionaries whose values are strings
  or \<open>None\<close> (a JSON \<open>null\<close> of the provider). A dictionary is a map from key to value;
  \<open>d.get(k)\<close> is \<open>py_get\<close> and \<open>d.get(k, default)\<close> is \<open>py_get_default\<close>. A character
  of a HOL string stands for one character of the Python string. The Japanese literals of
  the source cannot be spelled in this file; each is a field of the record \<open>literals\<close>,
  and every definition that prints one takes the record as its argument \<open>L\<close>.
\<close>

datatype pyval = PNone | PStr string

type_synonym item = "string \<rightharpoonup> pyval"

definition py_get :: "item \<Rightarrow> string \<Rightarrow> pyval" where
  "py_get d k = (case d k of None \<Rightarrow> PNone | Some v \<Rightarrow> v)"

definition py_get_default :: "item \<Rightarrow> string \<Rightarrow> string \<Rightarrow> pyval" where
  "py_get_default d k dflt = (case d k of None \<Rightarrow> PStr dflt | Some v \<Rightarrow> v)"

text \<open>The exceptions the model names; a raising call returns \<open>Inl\<close> of one.\<close>

datatype py_error = TypeError | AttributeError | KeyError | RecursionError

text \<open>Truthiness (\<open>if not content\<close>): \<open>None\<close> and the empty string are false.\<close>

fun truthy :: "pyval \<Rightarrow> bool" where
  "truthy PNone = False"
| "truthy (PStr s) = (s \<noteq> [])"

text \<open>\<open>str(v)\<close>, as an f-string interpolates a value.\<close>

fun py_str :: "pyval \<Rightarrow> string" where
  "py_str PNone = ''None''"
| "py_str (PStr s) = s"

text \<open>\<open>str.strip()\<close>: whitespace is what \<open>str.isspace\<close> accepts below code point 256.\<close>

definition py_isspace :: "char \<Rightarrow> bool" where
  "py_isspace c = (of_char c \<in> {9, 10, 11, 12, 13, 28, 29, 30, 31, 32, 133, 160 :: nat})"

definition strip :: "string \<Rightarrow> string" where
  "strip s = rev (dropWhile py_isspace (rev (dropWhile py_isspace s)))"

text \<open>
  The detector computes with numpy floats. Finite values are modelled as real numbers
  (rounding is not modelled); a division by zero does not raise there but yields an
  infinity or \<open>nan\<close>, and every comparison with \<open>nan\<close> is false.
\<close>

datatype npfloat = Finite real | PosInf | NegInf | NaN

fun np_div :: "real \<Rightarrow> real \<Rightarrow> npfloat" where
  "np_div a b =
     (if b \<noteq> 0 then Finite (a / b)
      else if 0 < a then PosInf else if a < 0 then NegInf else NaN)"

fun np_abs :: "npfloat \<Rightarrow> npfloat" where
  "np_abs (Finite x) = Finite \<bar>x\<bar>"
| "np_abs PosInf = PosInf"
| "np_abs NegInf = PosInf"
| "np_abs NaN = NaN"

fun np_ge :: "npfloat \<Rightarrow> real \<Rightarrow> bool" where
  "np_ge (Finite x) t = (t \<le> x)"
| "np_ge PosInf t = True"
| "np_ge NegInf t = False"
| "np_ge NaN t = False"

text \<open>
  The literals: the error placeholder of the narrator; the two reason messages of the
  detector, each a format of one number; the fixed lines of the two report templates.
\<close>

record literals =
  summary_error :: string
  volume_reason :: "real \<Rightarrow> string"
  price_reason :: "npfloat \<Rightarrow> string"
  rule_line :: string
  market_title :: string
  summary_heading :: string
  details_heading :: string
  source_label :: string
  published_label :: string
  summary_label :: string
  detail_label :: string
  market_disclaimer :: string
  hot_title :: string
  stock_bullet :: string
  related_heading :: string
  news_bullet :: string
  hot_disclaimer :: string


section \<open>news\_summarizer.py: the narrator\<close>

text \<open>
  \<open>openai.ChatCompletion.create\<close> is the text-generation backend. One call either returns
  a completion or raises; \<open>RateLimitError\<close> and \<open>APIError\<close> are the two exceptions the
  source names, \<open>OtherError\<close> is any other exception of the \<open>try\<close> body. The request of
  \<open>summarize_news\<close> is fixed by the title and the first 3000 characters of the article.
  A backend is a function of the number of requests issued before this one and of the
  request, so a stub may throttle the first calls and answer later ones.

  The effects of the narrator are the backend calls and the sleeps; the state is their
  trace, oldest first.
\<close>

datatype backend_reply = Completion string | RateLimitError | APIError | OtherError

record summary_prompt =
  prompt_title :: string
  prompt_text :: string

datatype event = Request summary_prompt | Sleep nat

type_synonym backend = "nat \<Rightarrow> summary_prompt \<Rightarrow> backend_reply"

fun is_request :: "event \<Rightarrow> bool" where
  "is_request (Request rq) = True"
| "is_request (Sleep n) = False"

definition issued :: "event list \<Rightarrow> nat" where
  "issued tr = length (filter is_request tr)"

text \<open>
  \<open>summarize_news\<close>. The prompt is an f-string around the title and
  \<open>article_text[:3000]\<close> (\<open>build_prompt\<close>). Building it slices the article and the
  log line slices \<open>title[:50]\<close>: either raises \<open>TypeError\<close> on \<open>None\<close>, inside the
  \<open>try\<close>, so the generic handler returns the placeholder before any request is sent. On
  \<open>RateLimitError\<close> the handler sleeps 60 seconds and returns what a nested call of
  \<open>summarize_news\<close> with the same arguments returns.

  The retry has no counter of its own; what bounds it is the interpreter's stack, since
  every retry is one more nested activation and the source never changes the recursion
  limit. \<open>depth\<close> is the number of activations of \<open>summarize_news\<close>, this one included,
  that still fit below the limit. At depth 0 the stack overflows and \<open>RecursionError\<close>
  is raised. Raised by the call in the handler, it leaves every activation (a handler's
  own exception is not caught by the clauses beside it) and reaches the caller; raised
  inside the \<open>try\<close> body of the innermost activation, it is an \<open>Exception\<close>, and the
  generic handler returns the placeholder. Which of the two happens depends on the frames
  the body needs; it is the argument \<open>caught\<close>.
\<close>

definition build_prompt :: "string \<Rightarrow> string \<Rightarrow> summary_prompt" where
  "build_prompt title article_text =
     \<lparr>prompt_title = title, prompt_text = take 3000 article_text\<rparr>"

definition stack_overflow :: "literals \<Rightarrow> bool \<Rightarrow> pyval \<Rightarrow> py_error + string" where
  "stack_overflow L caught title =
     (if caught then Inr (summary_error L @ py_str title) else Inl RecursionError)"

fun summarize_news ::
  "backend \<Rightarrow> literals \<Rightarrow> bool \<Rightarrow> nat \<Rightarrow> pyval \<Rightarrow> pyval \<Rightarrow> event list \<Rightarrow>
   (py_error + string) \<times> event list"
where
  "summarize_news B L caught 0 article_text title tr = (stack_overflow L caught title, tr)"
| "summarize_news B L caught (Suc depth) article_text title tr =
     (case article_text of
        PNone \<Rightarrow> (Inr (summary_error L @ py_str title), tr)
      | PStr text \<Rightarrow>
          (case title of
             PNone \<Rightarrow> (Inr (summary_error L @ py_str title), tr)
           | PStr t \<Rightarrow>
               (case B (issued tr) (build_prompt t text) of
                  Completion c \<Rightarrow>
                    (Inr (strip c), tr @ [Request (build_prompt t text)])
                | RateLimitError \<Rightarrow>
                    summarize_news B L caught depth article_text title
                      (tr @ [Request (build_prompt t text), Sleep 60])
                | APIError \<Rightarrow>
                    (Inr (summary_error L @ py_str title),
                     tr @ [Request (build_prompt t text)])
                | OtherError \<Rightarrow>
                    (Inr (summary_error L @ py_str title),
                     tr @ [Request (build_prompt t text)]))))"

text \<open>What a reply other than a throttle makes \<open>summarize_news\<close> return.\<close>

fun outcome :: "literals \<Rightarrow> string \<Rightarrow> backend_reply \<Rightarrow> string" where
  "outcome L t (Completion c) = strip c"
| "outcome L t r = summary_error L @ t"

text \<open>
  \<open>summarize_multiple_articles\<close>. The loop carries the index \<open>i\<close> of \<open>enumerate\<close> and
  the length \<open>n\<close> of the whole input. An article whose \<open>content\<close> is false (absent,
  \<open>None\<close> or empty) falls back to its \<open>description\<close>; when that is false too, the loop
  \<open>continue\<close>s and nothing is appended. Otherwise the copy of the article with the key
  \<open>summary\<close> set is appended, and the loop sleeps one second unless this was the last
  index. When \<open>summarize_news\<close> raises, the handler of the loop appends the copy of the
  article with the placeholder as its summary, and does not sleep. Every call of
  \<open>summarize_news\<close> starts from the same stack depth.
\<close>

fun summarize_loop ::
  "backend \<Rightarrow> literals \<Rightarrow> bool \<Rightarrow> nat \<Rightarrow> nat \<Rightarrow> nat \<Rightarrow> item list \<Rightarrow> event list \<Rightarrow>
   item list \<times> event list"
where
  "summarize_loop B L caught depth n i [] tr = ([], tr)"
| "summarize_loop B L caught depth n i (article # rest) tr =
     (let content = py_get_default article ''content'' '''';
          content = (if \<not> truthy content then py_get_default article ''description'' ''''
                     else content)
      in if \<not> truthy content then summarize_loop B L caught depth n (i + 1) rest tr
         else
           (case summarize_news B L caught depth content
                   (py_get_default article ''title'' '''') tr of
              (Inr summary, tr1) \<Rightarrow>
                (case summarize_loop B L caught depth n (i + 1) rest
                        (if int i < int n - 1 then tr1 @ [Sleep 1] else tr1) of
                   (out, tr2) \<Rightarrow> (article(''summary'' \<mapsto> PStr summary) # out, tr2))
            | (Inl e, tr1) \<Rightarrow>
                (case summarize_loop B L caught depth n (i + 1) rest tr1 of
                   (out, tr2) \<Rightarrow>
                     (article(''summary'' \<mapsto>
                        PStr (summary_error L @
                              py_str (py_get_default article ''title'' ''Unknown''))) # out,
                      tr2))))"

definition summarize_multiple_articles ::
  "backend \<Rightarrow> literals \<Rightarrow> bool \<Rightarrow> nat \<Rightarrow> item list \<Rightarrow> event list \<Rightarrow>
   item list \<times> event list"
where
  "summarize_multiple_articles B L caught depth articles tr =
     summarize_loop B L caught depth (length articles) 0 articles tr"

text \<open>An article has text to summarise when its content or its description is true.\<close>

definition has_text :: "item \<Rightarrow> bool" where
  "has_text article =
     (truthy (py_get_default article ''content'' '''') \<or>
      truthy (py_get_default article ''description'' ''''))"


section \<open>news\_collector.py: the collector\<close>

text \<open>
  A raw article is an entry of the provider's JSON answer. Each field the collector reads
  may be missing, \<open>null\<close> or a string; \<open>source\<close> may be missing, \<open>null\<close> or an object
  whose \<open>name\<close> is such a field. \<open>article.get(k)\<close> is \<open>field_get\<close> and
  \<open>article.get(k, '')\<close> is \<open>field_get_default\<close>: a default replaces a missing key only,
  a \<open>null\<close> comes back as \<open>None\<close>.
\<close>

datatype jfield = Missing | Null | Text string

datatype jsource = NoSource | NullSource | SourceObj jfield

record raw_article =
  raw_title :: jfield
  raw_description :: jfield
  raw_content :: jfield
  raw_url :: jfield
  raw_source :: jsource
  raw_publishedAt :: jfield
  raw_author :: jfield

fun field_get :: "jfield \<Rightarrow> pyval" where
  "field_get Missing = PNone"
| "field_get Null = PNone"
| "field_get (Text s) = PStr s"

fun field_get_default :: "jfield \<Rightarrow> string \<Rightarrow> pyval" where
  "field_get_default Missing dflt = PStr dflt"
| "field_get_default Null dflt = PNone"
| "field_get_default (Text s) dflt = PStr s"

text \<open>
  One fetch: \<open>requests.get\<close>, \<open>raise_for_status\<close> or \<open>response.json\<close> raises
  (\<open>Failed\<close>), or the answer is a JSON object with a \<open>status\<close> and, possibly, a list
  of \<open>articles\<close>. The provider is a function of the number of fetches before this one
  and of the query parameters that vary (\<open>q\<close> and \<open>pageSize\<close>).
\<close>

datatype articles_field = NoArticles | NullArticles | Articles "raw_article list"

record json_data =
  json_status :: jfield
  json_articles :: articles_field

datatype fetch_result = Failed | Data json_data

record query =
  param_q :: string
  param_pageSize :: int

type_synonym provider = "nat \<Rightarrow> query \<Rightarrow> fetch_result"

definition default_keywords :: "string list" where
  "default_keywords =
     [''market'', ''economy'', ''finance'', ''stocks'', ''trading'',
      ''investment'', ''economic'', ''financial'', ''business'']"

text \<open>The identity key of the duplicate check, \<open>article.get('url')\<close>.\<close>

definition url_key :: "raw_article \<Rightarrow> pyval" where
  "url_key article = field_get (raw_url article)"

text \<open>
  The inner \<open>for article in articles\<close>: an article is appended unless an article already
  in \<open>all_articles\<close> has the same key.
\<close>

fun merge_articles :: "raw_article list \<Rightarrow> raw_article list \<Rightarrow> raw_article list" where
  "merge_articles all_articles [] = all_articles"
| "merge_articles all_articles (article # rest) =
     merge_articles
       (if \<not> list_ex (\<lambda>a. url_key a = url_key article) all_articles
        then all_articles @ [article] else all_articles)
       rest"

text \<open>
  The articles one answer offers to the duplicate check. Iterating over
  \<open>data.get('articles', [])\<close> raises \<open>TypeError\<close> when the value is \<open>null\<close>; like a
  failed fetch, that is caught by the handlers of the keyword, which only log.
\<close>

fun offered :: "fetch_result \<Rightarrow> raw_article list" where
  "offered Failed = []"
| "offered (Data d) =
     (if json_status d = Text ''ok''
      then (case json_articles d of
              NoArticles \<Rightarrow> [] | NullArticles \<Rightarrow> [] | Articles as \<Rightarrow> as)
      else [])"

text \<open>
  The loop over \<open>keywords[:3]\<close>: \<open>i\<close> counts the fetches, \<open>qs\<close> is the list of queries
  sent so far.
\<close>

fun collect_terms ::
  "provider \<Rightarrow> int \<Rightarrow> nat \<Rightarrow> string list \<Rightarrow> raw_article list \<Rightarrow> query list \<Rightarrow>
   raw_article list \<times> query list"
where
  "collect_terms P max_articles i [] all_articles qs = (all_articles, qs)"
| "collect_terms P max_articles i (keyword # rest) all_articles qs =
     collect_terms P max_articles (i + 1) rest
       (merge_articles all_articles
          (offered (P i \<lparr>param_q = keyword, param_pageSize = min max_articles 20\<rparr>)))
       (qs @ [\<lparr>param_q = keyword, param_pageSize = min max_articles 20\<rparr>])"

text \<open>\<open>xs[:n]\<close> for a Python int \<open>n\<close>: a negative \<open>n\<close> counts from the end.\<close>

definition py_prefix :: "int \<Rightarrow> 'a list \<Rightarrow> 'a list" where
  "py_prefix n xs = (if 0 \<le> n then take (nat n) xs else take (nat (int (length xs) + n)) xs)"

text \<open>
  The formatting loop. \<open>article.get('source', {}).get('name', '')\<close> raises
  \<open>AttributeError\<close> when \<open>source\<close> is \<open>null\<close>.
\<close>

fun source_name :: "jsource \<Rightarrow> py_error + pyval" where
  "source_name NoSource = Inr (PStr '''')"
| "source_name NullSource = Inl AttributeError"
| "source_name (SourceObj name) = Inr (field_get_default name '''')"

definition format_article :: "raw_article \<Rightarrow> py_error + item" where
  "format_article article =
     (case source_name (raw_source article) of
        Inl e \<Rightarrow> Inl e
      | Inr name \<Rightarrow>
          Inr [''title'' \<mapsto> field_get_default (raw_title article) '''',
               ''description'' \<mapsto> field_get_default (raw_description article) '''',
               ''content'' \<mapsto> field_get_default (raw_content article) '''',
               ''url'' \<mapsto> field_get_default (raw_url article) '''',
               ''source'' \<mapsto> name,
               ''published_at'' \<mapsto> field_get_default (raw_publishedAt article) '''',
               ''author'' \<mapsto> field_get_default (raw_author article) ''''])"

fun format_articles :: "raw_article list \<Rightarrow> py_error + item list" where
  "format_articles [] = Inr []"
| "format_articles (article # rest) =
     (case format_article article of
        Inl e \<Rightarrow> Inl e
      | Inr formatted \<Rightarrow>
          (case format_articles rest of
             Inl e \<Rightarrow> Inl e
           | Inr formatted_articles \<Rightarrow> Inr (formatted # formatted_articles)))"

text \<open>The articles accepted by the duplicate check, and the queries sent.\<close>

definition keywords_used :: "string list option \<Rightarrow> string list" where
  "keywords_used keywords =
     take 3 (case keywords of None \<Rightarrow> default_keywords | Some ks \<Rightarrow> ks)"

definition all_articles ::
  "provider \<Rightarrow> string list option \<Rightarrow> int \<Rightarrow> raw_article list" where
  "all_articles P keywords max_articles =
     fst (collect_terms P max_articles 0 (keywords_used keywords) [] [])"

definition queries_sent ::
  "provider \<Rightarrow> string list option \<Rightarrow> int \<Rightarrow> query list" where
  "queries_sent P keywords max_articles =
     snd (collect_terms P max_articles 0 (keywords_used keywords) [] [])"

text \<open>
  \<open>get_market_news\<close>. The body of the outer \<open>try\<close> is \<open>market_news_body\<close>; the outer
  handler turns any exception of the body into the empty list.
\<close>

definition market_news_body ::
  "provider \<Rightarrow> string list option \<Rightarrow> int \<Rightarrow> py_error + item list" where
  "market_news_body P keywords max_articles =
     format_articles (py_prefix max_articles (all_articles P keywords max_articles))"

definition get_market_news ::
  "provider \<Rightarrow> string list option \<Rightarrow> int \<Rightarrow> py_error + item list" where
  "get_market_news P keywords max_articles =
     (case market_news_body P keywords max_articles of
        Inl e \<Rightarrow> Inr []
      | Inr formatted_articles \<Rightarrow> Inr formatted_articles)"


text \<open>
  What the provider offers during a run, in the order of the keywords and, within a
  keyword, in the order of the answer.
\<close>

fun offers :: "provider \<Rightarrow> int \<Rightarrow> nat \<Rightarrow> string list \<Rightarrow> raw_article list" where
  "offers P max_articles i [] = []"
| "offers P max_articles i (keyword # rest) =
     offered (P i \<lparr>param_q = keyword, param_pageSize = min max_articles 20\<rparr>) @
     offers P max_articles (i + 1) rest"

text \<open>
  Follows the specification's words, for comparison with \<open>merge_articles\<close>: an element
  is kept only if no earlier element has its key, so the first seen wins and the order of
  the survivors is the order of the input.
\<close>

function first_seen :: "('a \<Rightarrow> 'k) \<Rightarrow> 'a list \<Rightarrow> 'a list" where
  "first_seen key [] = []"
| "first_seen key (x # xs) = x # first_seen key (filter (\<lambda>y. key y \<noteq> key x) xs)"
  by pat_completeness auto
termination
  by (relation "measure (\<lambda>(key, xs). length xs)") (auto simp: less_Suc_eq_le)

text \<open>The \<open>url\<close> fields of a returned collection.\<close>

definition urls_of :: "item list \<Rightarrow> pyval list" where
  "urls_of items = map (\<lambda>formatted. py_get formatted ''url'') items"


section \<open>hot\_stock\_collector.py: the detector and the cross-linker\<close>

text \<open>
  \<open>stock_data\<close> maps a symbol to the frame of its price history; iteration follows the
  insertion order, so the dictionary is a list of pairs. A frame is the list of its rows,
  oldest first, each with the \<open>Close\<close> and \<open>Volume\<close> the detector reads. \<open>NoColumns n\<close>
  is a frame of \<open>n\<close> rows that lacks those columns: reading one raises \<open>KeyError\<close>.
\<close>

record row =
  Close :: real
  Volume :: real

datatype dataframe = Frame "row list" | NoColumns nat

fun len :: "dataframe \<Rightarrow> nat" where
  "len (Frame rows) = length rows"
| "len (NoColumns n) = n"

text \<open>A related news entry, as \<open>link_news_to_stock\<close> builds it.\<close>

record linked_news =
  news_title :: pyval
  news_summary :: pyval
  news_url :: pyval

text \<open>
  An entry of the result. \<open>related_news\<close> is the key the main program adds afterwards;
  \<open>None\<close> is an entry without it.
\<close>

record hot_stock =
  symbol :: string
  volume_ratio :: real
  price_change :: npfloat
  reasons :: "string list"
  related_news :: "linked_news list option"

definition mean :: "real list \<Rightarrow> real" where
  "mean xs = sum_list xs / real (length xs)"

text \<open>
  The two signals, for a frame of at least two rows: \<open>df['Volume'][:-1].mean()\<close> and the
  guarded ratio; the change between the last two closes.
\<close>

definition avg_volume :: "row list \<Rightarrow> real" where
  "avg_volume rows = mean (map Volume (butlast rows))"

definition volume_ratio_of :: "row list \<Rightarrow> real" where
  "volume_ratio_of rows =
     (if 0 < avg_volume rows then Volume (last rows) / avg_volume rows else 0)"

definition price_change_of :: "row list \<Rightarrow> npfloat" where
  "price_change_of rows =
     np_div (Close (last rows) - Close (last (butlast rows))) (Close (last (butlast rows)))"

definition reasons_of :: "literals \<Rightarrow> row list \<Rightarrow> real \<Rightarrow> real \<Rightarrow> string list" where
  "reasons_of L rows volume_threshold price_change_threshold =
     (if volume_threshold \<le> volume_ratio_of rows
      then [volume_reason L (volume_ratio_of rows)] else []) @
     (if np_ge (np_abs (price_change_of rows)) price_change_threshold
      then [price_reason L (price_change_of rows)] else [])"

text \<open>
  The body of the \<open>try\<close> for one symbol: \<open>Inr None\<close> when the symbol is skipped or no
  reason fired, \<open>Inl\<close> when the body raises.
\<close>

fun judge :: "literals \<Rightarrow> string \<Rightarrow> dataframe \<Rightarrow> real \<Rightarrow> real \<Rightarrow> py_error + hot_stock option"
where
  "judge L ticker (NoColumns n) volume_threshold price_change_threshold =
     (if n < 2 then Inr None else Inl KeyError)"
| "judge L ticker (Frame rows) volume_threshold price_change_threshold =
     (if length rows < 2 then Inr None
      else if reasons_of L rows volume_threshold price_change_threshold \<noteq> []
      then Inr (Some \<lparr>symbol = ticker,
                      volume_ratio = volume_ratio_of rows,
                      price_change = price_change_of rows,
                      reasons = reasons_of L rows volume_threshold price_change_threshold,
                      related_news = None\<rparr>)
      else Inr None)"

fun identify_hot_stocks ::
  "literals \<Rightarrow> (string \<times> dataframe) list \<Rightarrow> real \<Rightarrow> real \<Rightarrow> hot_stock list"
where
  "identify_hot_stocks L [] volume_threshold price_change_threshold = []"
| "identify_hot_stocks L ((ticker, df) # rest) volume_threshold price_change_threshold =
     (case judge L ticker df volume_threshold price_change_threshold of
        Inl e \<Rightarrow> identify_hot_stocks L rest volume_threshold price_change_threshold
      | Inr None \<Rightarrow> identify_hot_stocks L rest volume_threshold price_change_threshold
      | Inr (Some hot) \<Rightarrow>
          hot # identify_hot_stocks L rest volume_threshold price_change_threshold)"

text \<open>
  \<open>needle in haystack\<close> on strings, and \<open>s.split(sep)\<close> for a separator of one
  character; \<open>split\<close> never returns the empty list, so \<open>[0]\<close> does not raise.
\<close>

fun py_in :: "string \<Rightarrow> string \<Rightarrow> bool" where
  "py_in needle [] = (needle = [])"
| "py_in needle (c # cs) = (prefix needle (c # cs) \<or> py_in needle cs)"

fun py_split :: "char \<Rightarrow> string \<Rightarrow> string list" where
  "py_split sep [] = [[]]"
| "py_split sep (c # cs) =
     (if c = sep then [] # py_split sep cs
      else (case py_split sep cs of [] \<Rightarrow> [[c]] | piece # pieces \<Rightarrow> (c # piece) # pieces))"

definition first_piece :: "string \<Rightarrow> string" where
  "first_piece stock_symbol =
     (case py_split CHR ''.'' stock_symbol of [] \<Rightarrow> [] | piece # pieces \<Rightarrow> piece)"

text \<open>
  \<open>link_news_to_stock\<close>. The function has no \<open>try\<close>: when the title of an article is
  \<open>None\<close>, the test \<open>... in title\<close> raises \<open>TypeError\<close> to the caller.
\<close>

definition linked :: "item \<Rightarrow> pyval \<Rightarrow> linked_news" where
  "linked article title =
     \<lparr>news_title = title,
      news_summary = py_get_default article ''summary'' '''',
      news_url = py_get_default article ''url'' ''''\<rparr>"

fun link_loop :: "string \<Rightarrow> item list \<Rightarrow> linked_news list \<Rightarrow> py_error + linked_news list"
where
  "link_loop stock_symbol [] related = Inr related"
| "link_loop stock_symbol (article # rest) related =
     (case py_get_default article ''title'' '''' of
        PNone \<Rightarrow> Inl TypeError
      | PStr title \<Rightarrow>
          link_loop stock_symbol rest
            (if py_in (first_piece stock_symbol) title \<or> py_in stock_symbol title
             then related @ [linked article (PStr title)]
             else related))"

definition link_news_to_stock :: "string \<Rightarrow> item list \<Rightarrow> py_error + linked_news list" where
  "link_news_to_stock stock_symbol news_articles = link_loop stock_symbol news_articles []"

text \<open>The title the cross-linker tests, \<open>article.get('title', '')\<close>.\<close>

definition title_of :: "item \<Rightarrow> pyval" where
  "title_of article = py_get_default article ''title'' ''''"

text \<open>
  Follows the specification's words, for comparison with \<open>first_piece\<close>: the symbol with
  its exchange suffix, the text after the last dot, and that dot stripped.
\<close>

definition without_exchange_suffix :: "string \<Rightarrow> string" where
  "without_exchange_suffix stock_symbol =
     (if CHR ''.'' \<in> set stock_symbol
      then rev (tl (dropWhile (\<lambda>c. c \<noteq> CHR ''.'') (rev stock_symbol)))
      else stock_symbol)"


section \<open>email\_sender.py and main.py: the report composer\<close>














section \<open>Sample inputs\<close>

text \<open>
  Literals, stub backends, stub providers and data for the concrete runs below.
\<close>

definition sample_literals :: literals where
  "sample_literals =
     \<lparr>summary_error = ''summary error: '',
      volume_reason = (\<lambda>r. ''volume surge''),
      price_reason = (\<lambda>p. ''price move''),
      rule_line = ''----'',
      market_title = ''Daily market report'',
      summary_heading = ''[Summary]'',
      details_heading = ''[Details]'',
      source_label = ''Source'',
      published_label = ''Published'',
      summary_label = ''Summary'',
      detail_label = ''Link'',
      market_disclaimer = ''Generated automatically. No investment advice.'',
      hot_title = ''Hot stocks report'',
      stock_bullet = ''*'',
      related_heading = ''Related news'',
      news_bullet = ''+'',
      hot_disclaimer = ''Generated automatically; decide for yourself.''\<rparr>"


definition always_throttle :: backend where
  "always_throttle n rq = RateLimitError"

definition never_throttles :: backend where
  "never_throttles n rq = Completion (prompt_title rq)"

definition article_with_text :: item where
  "article_with_text = [''title'' \<mapsto> PStr ''A'', ''content'' \<mapsto> PStr ''rates rise'']"

definition article_without_text :: item where
  "article_without_text = [''title'' \<mapsto> PStr ''B'', ''content'' \<mapsto> PStr '''', ''description'' \<mapsto> PNone]"

definition bare_article :: "string \<Rightarrow> jfield \<Rightarrow> raw_article" where
  "bare_article t u =
     \<lparr>raw_title = Text t, raw_description = Missing, raw_content = Missing, raw_url = u,
      raw_source = NoSource, raw_publishedAt = Missing, raw_author = Missing\<rparr>"

definition ok_data :: "raw_article list \<Rightarrow> fetch_result" where
  "ok_data as = Data \<lparr>json_status = Text ''ok'', json_articles = Articles as\<rparr>"

definition colliding_provider :: provider where
  "colliding_provider i qy =
     (if i = 0
      then ok_data [bare_article ''A'' Missing, bare_article ''B'' (Text ''''),
                    bare_article ''C'' (Text ''https://c'')]
      else Failed)"

definition scenario_provider :: provider where
  "scenario_provider i qy =
     (if i = 0 then ok_data [bare_article ''one'' (Text ''https://a'')]
      else if i = 1
      then ok_data [bare_article ''two'' (Text ''https://b''),
                    bare_article ''three'' (Text ''https://b'')]
      else Failed)"

definition failing_first_provider :: provider where
  "failing_first_provider i qy =
     (if i = 0 then Failed else ok_data [bare_article (param_q qy) (Text (param_q qy))])"

definition failing_provider :: provider where
  "failing_provider i qy = Failed"

definition null_description_provider :: provider where
  "null_description_provider i qy =
     ok_data [\<lparr>raw_title = Text ''T'', raw_description = Null, raw_content = Text ''c'',
               raw_url = Text ''https://t'', raw_source = SourceObj (Text ''S''),
               raw_publishedAt = Text ''2024-01-01'', raw_author = Null\<rparr>]"

definition formatted_null_description :: item where
  "formatted_null_description =
     [''title'' \<mapsto> PStr ''T'', ''description'' \<mapsto> PNone, ''content'' \<mapsto> PStr ''c'',
      ''url'' \<mapsto> PStr ''https://t'', ''source'' \<mapsto> PStr ''S'',
      ''published_at'' \<mapsto> PStr ''2024-01-01'', ''author'' \<mapsto> PNone]"

definition flat_then :: "real \<Rightarrow> real \<Rightarrow> row list" where
  "flat_then c v =
     [\<lparr>Close = 10, Volume = 100\<rparr>, \<lparr>Close = 10, Volume = 100\<rparr>,
      \<lparr>Close = 10, Volume = 100\<rparr>, \<lparr>Close = 10, Volume = 100\<rparr>,
      \<lparr>Close = c, Volume = v\<rparr>]"

definition sample_stock_data :: "(string \<times> dataframe) list" where
  "sample_stock_data =
     [(''both'', Frame (flat_then (106 / 10) 500)),
      (''at'', Frame (flat_then 10 200)),
      (''below'', Frame [\<lparr>Close = 10, Volume = 1000000\<rparr>, \<lparr>Close = 10, Volume = 1999999\<rparr>]),
      (''new'', Frame [\<lparr>Close = 10, Volume = 100\<rparr>])]"

definition silent_rows :: "row list" where
  "silent_rows = [\<lparr>Close = 10, Volume = 0\<rparr>, \<lparr>Close = 10, Volume = 0\<rparr>, \<lparr>Close = 10, Volume = 700\<rparr>]"

definition silent_jump_rows :: "row list" where
  "silent_jump_rows = [\<lparr>Close = 10, Volume = 0\<rparr>, \<lparr>Close = 10, Volume = 0\<rparr>, \<lparr>Close = 11, Volume = 700\<rparr>]"

definition silent_stock_data :: "(string \<times> dataframe) list" where
  "silent_stock_data = [(''quiet'', Frame silent_rows), (''jump'', Frame silent_jump_rows)]"

definition toyota_news :: "item list" where
  "toyota_news =
     [[''title'' \<mapsto> PStr ''Toyota (7203) reports record profit'',
       ''summary'' \<mapsto> PStr ''Profit up.'', ''url'' \<mapsto> PStr ''https://n/1''],
      [''title'' \<mapsto> PStr ''Sony gains'', ''url'' \<mapsto> PStr ''https://n/2''],
      [''summary'' \<mapsto> PStr ''untitled'']]"




section \<open>Properties of the narrator\<close>

lemma issued_append: "issued (tr @ tr') = issued tr + issued tr'"
  by (simp add: issued_def)

lemma issued_retries: "issued (concat (replicate k [Request rq, Sleep n])) = k"
  by (induction k) (simp_all add: issued_def)

lemma summarize_news_first_answer:
  assumes "k < depth"
    and "\<forall>j<k. B (issued tr + j) (build_prompt t body) = RateLimitError"
    and "B (issued tr + k) (build_prompt t body) \<noteq> RateLimitError"
  shows "summarize_news B L caught depth (PStr body) (PStr t) tr =
         (Inr (outcome L t (B (issued tr + k) (build_prompt t body))),
          tr @ concat (replicate k [Request (build_prompt t body), Sleep 60])
             @ [Request (build_prompt t body)])"
  using assms
proof (induction k arbitrary: depth tr)
  case 0
  then obtain d where d: "depth = Suc d" by (cases depth) auto
  from 0 show ?case
    by (cases "B (issued tr) (build_prompt t body)") (simp_all add: d)
next
  case (Suc k)
  let ?rq = "build_prompt t body"
  let ?tr = "tr @ [Request ?rq, Sleep 60]"
  from Suc.prems obtain d where d: "depth = Suc d" and kd: "k < d"
    by (cases depth) auto
  from Suc.prems have first: "B (issued tr) ?rq = RateLimitError"
    by (metis add.right_neutral zero_less_Suc)
  have i: "issued ?tr = Suc (issued tr)"
    by (simp add: issued_def)
  have rest: "\<forall>j<k. B (issued ?tr + j) ?rq = RateLimitError"
  proof (intro allI impI)
    fix j assume "j < k"
    then have "Suc j < Suc k" by simp
    with Suc.prems(2) have "B (issued tr + Suc j) ?rq = RateLimitError" by blast
    then show "B (issued ?tr + j) ?rq = RateLimitError" by (simp add: i)
  qed
  from Suc.prems(3) have last: "B (issued ?tr + k) ?rq \<noteq> RateLimitError"
    by (simp add: i)
  from Suc.IH [OF kd rest last] first show ?case
    by (simp add: d i)
qed






lemma summarize_loop_shape:
  "list_all2 (\<lambda>out_article article. \<exists>summary. out_article = article(''summary'' \<mapsto> PStr summary))
     (fst (summarize_loop B L caught depth n i arts tr)) (filter has_text arts)"
proof (induction arts arbitrary: i tr)
  case Nil
  then show ?case by simp
next
  case (Cons a arts)
  show ?case
  proof (cases "has_text a")
    case False
    with Cons.IH [of "i + 1" tr] show ?thesis
      by (simp add: has_text_def Let_def)
  next
    case True
    define c where "c = (if \<not> truthy (py_get_default a ''content'' '''')
        then py_get_default a ''description'' '''' else py_get_default a ''content'' '''')"
    have tc: "truthy c" using True by (auto simp: c_def has_text_def)
    obtain r tr1 where sn:
      "summarize_news B L caught depth c (py_get_default a ''title'' '''') tr = (r, tr1)"
      by (cases "summarize_news B L caught depth c (py_get_default a ''title'' '''') tr")
    show ?thesis
    proof (cases r)
      case (Inr summary)
      obtain out tr2 where rest: "summarize_loop B L caught depth n (i + 1) arts
          (if int i < int n - 1 then tr1 @ [Sleep 1] else tr1) = (out, tr2)"
        by (cases "summarize_loop B L caught depth n (i + 1) arts
          (if int i < int n - 1 then tr1 @ [Sleep 1] else tr1)")
      have "fst (summarize_loop B L caught depth n i (a # arts) tr) =
            a(''summary'' \<mapsto> PStr summary) # out"
        using tc sn Inr rest by (simp add: Let_def c_def [symmetric])
      moreover from Cons.IH [of "i + 1" "if int i < int n - 1 then tr1 @ [Sleep 1] else tr1"] rest
      have "list_all2 (\<lambda>out_article article. \<exists>summary. out_article = article(''summary'' \<mapsto> PStr summary))
              out (filter has_text arts)"
        by (simp del: fun_upd_apply)
      ultimately show ?thesis using True
        by (simp del: fun_upd_apply) blast
    next
      case (Inl e)
      obtain out tr2 where rest:
        "summarize_loop B L caught depth n (i + 1) arts tr1 = (out, tr2)"
        by (cases "summarize_loop B L caught depth n (i + 1) arts tr1")
      have "fst (summarize_loop B L caught depth n i (a # arts) tr) =
            a(''summary'' \<mapsto> PStr (summary_error L @
                  py_str (py_get_default a ''title'' ''Unknown''))) # out"
        using tc sn Inl rest by (simp add: Let_def c_def [symmetric])
      moreover from Cons.IH [of "i + 1" tr1] rest
      have "list_all2 (\<lambda>out_article article. \<exists>summary. out_article = article(''summary'' \<mapsto> PStr summary))
              out (filter has_text arts)"
        by (simp del: fun_upd_apply)
      ultimately show ?thesis using True
        by (simp del: fun_upd_apply) blast
    qed
  qed
qed

text \<open>
  Claim C9. \<open>summarize_multiple_articles\<close> leaves out every article whose content and
  description are both empty (absent, \<open>None\<close> or \<open>''\<close>): for every backend its output
  is, in order, exactly the articles that have a true content or description, each with
  its \<open>summary\<close> key set (to the summary, or to the placeholder when \<open>summarize_news\<close>
  raised), so the output is as long as that selection and can be shorter than the input.
\<close>

theorem summarize_multiple_articles_omits_empty:
  "list_all2 (\<lambda>out_article article. \<exists>summary. out_article = article(''summary'' \<mapsto> PStr summary))
     (fst (summarize_multiple_articles B L caught depth articles tr))
     (filter has_text articles) \<and>
   length (fst (summarize_multiple_articles B L caught depth articles tr)) =
     length (filter has_text articles)"
proof -
  have *: "list_all2 (\<lambda>out_article article. \<exists>summary. out_article = article(''summary'' \<mapsto> PStr summary))
     (fst (summarize_multiple_articles B L caught depth articles tr))
     (filter has_text articles)"
    unfolding summarize_multiple_articles_def by (rule summarize_loop_shape)
  from * list_all2_lengthD [OF *] show ?thesis by blast
qed

theorem summarize_multiple_articles_omits_empty_witness:
  "fst (summarize_multiple_articles never_throttles sample_literals False 997
          [article_with_text, article_without_text] []) =
     [article_with_text(''summary'' \<mapsto> PStr ''A'')] \<and>
   length (fst (summarize_multiple_articles never_throttles sample_literals False 997
          [article_with_text, article_without_text] [])) = 1 \<and>
   fst (summarize_multiple_articles always_throttle sample_literals False (Suc (Suc 0))
          [article_with_text, article_without_text] []) =
     [article_with_text(''summary'' \<mapsto> PStr ''summary error: A'')]"
proof -
  have f: "filter has_text [article_with_text, article_without_text] = [article_with_text]"
    by (simp add: has_text_def py_get_default_def article_with_text_def
          article_without_text_def)
  from summarize_multiple_articles_omits_empty
    [of never_throttles sample_literals False 997
        "[article_with_text, article_without_text]" "[]"]
  have len: "length (fst (summarize_multiple_articles never_throttles sample_literals False 997
          [article_with_text, article_without_text] [])) = 1"
    by (simp only: f) simp
  have first: "summarize_news never_throttles sample_literals False 997
       (PStr ''rates rise'') (PStr ''A'') [] =
     (Inr ''A'', [Request (build_prompt ''A'' ''rates rise'')])"
    using summarize_news_first_answer
      [of 0 997 never_throttles "[]" "''A''" "''rates rise''" sample_literals False]
    by (simp add: never_throttles_def build_prompt_def strip_def py_isspace_def)
  have run: "fst (summarize_multiple_articles never_throttles sample_literals False 997
          [article_with_text, article_without_text] []) =
     [article_with_text(''summary'' \<mapsto> PStr ''A'')]"
    by (simp add: summarize_multiple_articles_def Let_def py_get_default_def
          article_with_text_def article_without_text_def first)
  have handler: "fst (summarize_multiple_articles always_throttle sample_literals False
          (Suc (Suc 0)) [article_with_text, article_without_text] []) =
     [article_with_text(''summary'' \<mapsto> PStr ''summary error: A'')]"
    by (simp add: summarize_multiple_articles_def Let_def py_get_default_def
          article_with_text_def article_without_text_def always_throttle_def
          stack_overflow_def sample_literals_def)
  from run len handler show ?thesis by blast
qed


section \<open>Properties of the collector\<close>

lemma merge_articles_append:
  "merge_articles acc (xs @ ys) = merge_articles (merge_articles acc xs) ys"
  by (induction xs arbitrary: acc) simp_all

lemma merge_articles_first_seen:
  "merge_articles acc xs =
   acc @ first_seen url_key (filter (\<lambda>y. url_key y \<notin> url_key ` set acc) xs)"
proof (induction xs arbitrary: acc)
  case Nil
  then show ?case by simp
next
  case (Cons x xs)
  show ?case
  proof (cases "url_key x \<in> url_key ` set acc")
    case True
    then have "list_ex (\<lambda>a. url_key a = url_key x) acc"
      by (auto simp: list_ex_iff)
    with True Cons.IH [of acc] show ?thesis by simp
  next
    case False
    then have no: "\<not> list_ex (\<lambda>a. url_key a = url_key x) acc"
      by (metis (mono_tags, lifting) list_ex_iff image_eqI)
    have "filter (\<lambda>y. url_key y \<notin> url_key ` set (acc @ [x])) xs =
          filter (\<lambda>y. url_key y \<noteq> url_key x) (filter (\<lambda>y. url_key y \<notin> url_key ` set acc) xs)"
      by (auto intro: filter_cong)
    with no False Cons.IH [of "acc @ [x]"] show ?thesis by simp
  qed
qed

lemma first_seen_keys: "key ` set (first_seen key xs) = key ` set xs"
proof (induction key xs rule: first_seen.induct)
  case (1 key)
  then show ?case by simp
next
  case (2 key x xs)
  then show ?case by auto
qed

lemma first_seen_subset: "set (first_seen key xs) \<subseteq> set xs"
  by (induction key xs rule: first_seen.induct) auto

lemma first_seen_distinct: "distinct (map key (first_seen key xs))"
proof (induction key xs rule: first_seen.induct)
  case (1 key)
  then show ?case by simp
next
  case (2 key x xs)
  have "key x \<notin> key ` set (first_seen key (filter (\<lambda>y. key y \<noteq> key x) xs))"
    using first_seen_subset [of key "filter (\<lambda>y. key y \<noteq> key x) xs"] by auto
  with 2 show ?case by simp
qed

lemma collect_terms_fst:
  "fst (collect_terms P m i ks acc qs) = merge_articles acc (offers P m i ks)"
  by (induction ks arbitrary: i acc qs) (simp_all add: merge_articles_append)

lemma collect_terms_snd:
  "snd (collect_terms P m i ks acc qs) =
   qs @ map (\<lambda>k. \<lparr>param_q = k, param_pageSize = min m 20\<rparr>) ks"
  by (induction ks arbitrary: i acc qs) simp_all

lemma all_articles_first_seen:
  "all_articles P keywords m = first_seen url_key (offers P m 0 (keywords_used keywords))"
  by (simp add: all_articles_def collect_terms_fst merge_articles_first_seen)

lemma py_prefix_take: "\<exists>k. py_prefix n xs = take k xs"
  by (auto simp: py_prefix_def)

lemma py_prefix_length: "0 \<le> n \<Longrightarrow> length (py_prefix n xs) \<le> nat n"
  by (simp add: py_prefix_def)

lemma format_articles_Inr:
  "format_articles as = Inr items \<Longrightarrow>
   list_all2 (\<lambda>formatted a. format_article a = Inr formatted) items as"
proof (induction as arbitrary: items)
  case Nil
  then show ?case by simp
next
  case (Cons a as)
  then show ?case by (auto split: sum.splits)
qed

lemma format_article_url:
  "format_article a = Inr formatted \<Longrightarrow> raw_url a \<noteq> Missing \<Longrightarrow>
   py_get formatted ''url'' = url_key a"
  by (cases "raw_url a")
     (auto simp: format_article_def py_get_def url_key_def split: sum.splits)

lemma formatted_urls:
  "list_all2 (\<lambda>formatted a. format_article a = Inr formatted) items as \<Longrightarrow>
   \<forall>a\<in>set as. raw_url a \<noteq> Missing \<Longrightarrow>
   map (\<lambda>formatted. py_get formatted ''url'') items = map url_key as"
  by (induction rule: list_all2_induct) (simp_all add: format_article_url)

lemma get_market_news_cases:
  "get_market_news P keywords m = Inr [] \<or>
   (\<exists>items. get_market_news P keywords m = Inr items \<and>
      list_all2 (\<lambda>formatted a. format_article a = Inr formatted) items
        (py_prefix m (all_articles P keywords m)))"
  by (auto simp: get_market_news_def market_news_body_def
           split: sum.splits dest: format_articles_Inr)

lemma format_articles_total:
  "\<forall>a\<in>set as. raw_source a \<noteq> NullSource \<Longrightarrow> \<exists>items. format_articles as = Inr items"
proof (induction as)
  case Nil
  then show ?case by simp
next
  case (Cons a as)
  then obtain items where "format_articles as = Inr items" by auto
  moreover from Cons.prems have "\<exists>formatted. format_article a = Inr formatted"
    by (cases "raw_source a") (auto simp: format_article_def)
  ultimately show ?case by auto
qed

lemma get_market_news_formats:
  assumes "\<forall>a\<in>set (py_prefix m (all_articles P kws m)). raw_source a \<noteq> NullSource"
  shows "\<exists>items. get_market_news P kws m = Inr items \<and>
     list_all2 (\<lambda>formatted a. format_article a = Inr formatted) items
       (py_prefix m (all_articles P kws m))"
proof -
  from format_articles_total [OF assms] obtain items where
    f: "format_articles (py_prefix m (all_articles P kws m)) = Inr items" by blast
  then have "get_market_news P kws m = Inr items"
    by (simp add: get_market_news_def market_news_body_def)
  with format_articles_Inr [OF f] show ?thesis by blast
qed

text \<open>
  Claim C2, as the code has it. The articles the collector accepts are the first seen of
  each key among the articles offered, in the order of the keywords and of each answer;
  the key is \<open>article.get('url')\<close>, for which a missing and a \<open>null\<close> url are the same
  \<open>None\<close>, and no two accepted articles share it. The slice \<open>all_articles[:max_articles]\<close>
  is the prefix of that length when \<open>max_articles\<close> is not negative. When no article of
  the slice has a \<open>null\<close> source, the collector returns exactly the formatted slice,
  article by article; it has at most \<open>max_articles\<close> items when that bound is not
  negative, and the \<open>url\<close> fields of its items are pairwise distinct when every article
  of the slice carries a url key. The length bound and the distinct urls hold of what the
  collector returns in any case.
\<close>

theorem get_market_news_dedup_order_bound:
  "all_articles P kws m = first_seen url_key (offers P m 0 (keywords_used kws)) \<and>
   distinct (map url_key (all_articles P kws m)) \<and>
   (0 \<le> m \<longrightarrow> py_prefix m (all_articles P kws m) = take (nat m) (all_articles P kws m)) \<and>
   ((\<forall>a\<in>set (py_prefix m (all_articles P kws m)). raw_source a \<noteq> NullSource) \<longrightarrow>
      (\<exists>items. get_market_news P kws m = Inr items \<and>
         list_all2 (\<lambda>formatted a. format_article a = Inr formatted) items
           (py_prefix m (all_articles P kws m)) \<and>
         (0 \<le> m \<longrightarrow> int (length items) \<le> m) \<and>
         ((\<forall>a\<in>set (py_prefix m (all_articles P kws m)). raw_url a \<noteq> Missing) \<longrightarrow>
            distinct (urls_of items)))) \<and>
   (\<exists>items. get_market_news P kws m = Inr items \<and>
      (0 \<le> m \<longrightarrow> int (length items) \<le> m) \<and>
      ((\<forall>a\<in>set (all_articles P kws m). raw_url a \<noteq> Missing) \<longrightarrow>
         distinct (urls_of items)))"
proof -
  let ?all = "all_articles P kws m"
  let ?pre = "py_prefix m ?all"
  have first: "?all = first_seen url_key (offers P m 0 (keywords_used kws))"
    by (rule all_articles_first_seen)
  have d: "distinct (map url_key ?all)"
    by (simp add: all_articles_first_seen first_seen_distinct)
  have pre: "0 \<le> m \<longrightarrow> ?pre = take (nat m) ?all"
    by (simp add: py_prefix_def)
  obtain k where k: "?pre = take k ?all"
    using py_prefix_take by blast
  have formatted: "(0 \<le> m \<longrightarrow> int (length items) \<le> m) \<and>
         ((\<forall>a\<in>set ?pre. raw_url a \<noteq> Missing) \<longrightarrow> distinct (urls_of items))"
    if f: "list_all2 (\<lambda>formatted a. format_article a = Inr formatted) items ?pre" for items
  proof -
    have len: "length items = length ?pre"
      using f by (rule list_all2_lengthD)
    have bound: "0 \<le> m \<longrightarrow> int (length items) \<le> m"
      using py_prefix_length [of m ?all] len by auto
    have urls: "distinct (urls_of items)" if all: "\<forall>a\<in>set ?pre. raw_url a \<noteq> Missing"
    proof -
      from formatted_urls [OF f all]
      have "urls_of items = map url_key (take k ?all)"
        by (simp add: urls_of_def k)
      also have "\<dots> = take k (map url_key ?all)"
        by (simp add: take_map)
      finally show ?thesis using d by (simp add: distinct_take)
    qed
    from bound urls show ?thesis by blast
  qed
  have strong: "(\<forall>a\<in>set ?pre. raw_source a \<noteq> NullSource) \<longrightarrow>
      (\<exists>items. get_market_news P kws m = Inr items \<and>
         list_all2 (\<lambda>formatted a. format_article a = Inr formatted) items ?pre \<and>
         (0 \<le> m \<longrightarrow> int (length items) \<le> m) \<and>
         ((\<forall>a\<in>set ?pre. raw_url a \<noteq> Missing) \<longrightarrow> distinct (urls_of items)))"
    using get_market_news_formats [of m P kws] formatted by blast
  have sub: "set ?pre \<subseteq> set ?all"
    unfolding k by (rule set_take_subset)
  from get_market_news_cases [of P kws m]
  have always: "\<exists>items. get_market_news P kws m = Inr items \<and>
      (0 \<le> m \<longrightarrow> int (length items) \<le> m) \<and>
      ((\<forall>a\<in>set ?all. raw_url a \<noteq> Missing) \<longrightarrow> distinct (urls_of items))"
  proof
    assume "get_market_news P kws m = Inr []"
    then show ?thesis by (simp add: urls_of_def)
  next
    assume "\<exists>items. get_market_news P kws m = Inr items \<and>
      list_all2 (\<lambda>formatted a. format_article a = Inr formatted) items ?pre"
    then obtain items where g: "get_market_news P kws m = Inr items"
      and f: "list_all2 (\<lambda>formatted a. format_article a = Inr formatted) items ?pre"
      by blast
    from formatted [OF f] sub g show ?thesis by blast
  qed
  from first d pre strong always show ?thesis by blast
qed

theorem get_market_news_dedup_order_bound_witness:
  "all_articles scenario_provider (Some [''market'', ''economy'']) 10 =
     [bare_article ''one'' (Text ''https://a''), bare_article ''two'' (Text ''https://b'')] \<and>
   map_sum id urls_of (get_market_news scenario_provider (Some [''market'', ''economy'']) 10) =
     Inr [PStr ''https://a'', PStr ''https://b''] \<and>
   map_sum id urls_of (get_market_news scenario_provider (Some [''market'', ''economy'']) 1) =
     Inr [PStr ''https://a'']"
proof -
  let ?kws = "Some [''market'', ''economy'']"
  let ?a = "bare_article ''one'' (Text ''https://a'')"
  let ?b = "bare_article ''two'' (Text ''https://b'')"
  have acc: "all_articles scenario_provider ?kws m = [?a, ?b]" for m
    by (simp add: all_articles_def keywords_used_def scenario_provider_def ok_data_def
          bare_article_def url_key_def)
  have src: "\<forall>a\<in>set (py_prefix m [?a, ?b]). raw_source a \<noteq> NullSource" for m
    by (auto simp: py_prefix_def bare_article_def dest!: in_set_takeD)
  have url: "format_article a = Inr formatted \<Longrightarrow> raw_url a = Text u \<Longrightarrow>
             py_get formatted ''url'' = PStr u" for a formatted u
    by (auto simp: format_article_def py_get_def split: sum.splits)
  from get_market_news_dedup_order_bound [of scenario_provider ?kws 10] src [of 10]
  obtain items where g: "get_market_news scenario_provider ?kws 10 = Inr items"
    and f: "list_all2 (\<lambda>formatted a. format_article a = Inr formatted) items
              (py_prefix 10 [?a, ?b])"
    unfolding acc by blast
  from f obtain x y where xy: "items = [x, y]" "format_article ?a = Inr x"
      "format_article ?b = Inr y"
    by (auto simp: py_prefix_def list_all2_Cons2)
  have ten: "map_sum id urls_of (get_market_news scenario_provider ?kws 10) =
     Inr [PStr ''https://a'', PStr ''https://b'']"
    using g xy url [of ?a x "''https://a''"] url [of ?b y "''https://b''"]
    by (simp add: urls_of_def bare_article_def)
  from get_market_news_dedup_order_bound [of scenario_provider ?kws 1] src [of 1]
  obtain items1 where g1: "get_market_news scenario_provider ?kws 1 = Inr items1"
    and f1: "list_all2 (\<lambda>formatted a. format_article a = Inr formatted) items1
              (py_prefix 1 [?a, ?b])"
    unfolding acc by blast
  from f1 obtain z where z: "items1 = [z]" "format_article ?a = Inr z"
    by (auto simp: py_prefix_def list_all2_Cons2)
  have one: "map_sum id urls_of (get_market_news scenario_provider ?kws 1) =
     Inr [PStr ''https://a'']"
    using g1 z url [of ?a z "''https://a''"]
    by (simp add: urls_of_def bare_article_def)
  from acc [of 10] ten one show ?thesis by blast
qed

text \<open>
  Claim C2 as the specification words it fails on two counts at this input. The answer
  holds an article without a url key, one with the url \<open>''\<close> and a third one, and
  \<open>max_articles\<close> is \<open>-1\<close>: the duplicate check tells \<open>None\<close> from \<open>''\<close>, the slice
  \<open>[:-1]\<close> drops the last article only, and formatting gives both survivors the url
  \<open>''\<close>. The collection has two items with the same url, and more than \<open>-1\<close> of them.
\<close>

theorem get_market_news_dedup_order_bound_counterexample:
  "map_sum id urls_of (get_market_news colliding_provider (Some [''market'']) (- 1)) =
     Inr [PStr '''', PStr ''''] \<and>
   map_sum id length (get_market_news colliding_provider (Some [''market'']) (- 1)) = Inr 2"
  by (simp add: get_market_news_def market_news_body_def all_articles_def keywords_used_def
       colliding_provider_def ok_data_def bare_article_def url_key_def py_prefix_def
       format_article_def urls_of_def py_get_def)

lemma offers_all_failed: "(\<forall>i qy. P i qy = Failed) \<Longrightarrow> offers P m i ks = []"
  by (induction ks arbitrary: i) simp_all

text \<open>
  Claim C6. \<open>get_market_news\<close> never raises. The queries it sends are those of the first
  three keywords, whatever the provider answers, so a failed fetch does not stop the
  later ones; every url key that some answer offers is among the accepted articles; and
  when every fetch fails the result is the empty list.
\<close>

theorem get_market_news_never_raises:
  "(\<exists>items. get_market_news P kws m = Inr items) \<and>
   queries_sent P kws m =
     map (\<lambda>k. \<lparr>param_q = k, param_pageSize = min m 20\<rparr>) (keywords_used kws) \<and>
   url_key ` set (all_articles P kws m) = url_key ` set (offers P m 0 (keywords_used kws)) \<and>
   ((\<forall>i qy. P i qy = Failed) \<longrightarrow> get_market_news P kws m = Inr [])"
proof (intro conjI impI)
  show "\<exists>items. get_market_news P kws m = Inr items"
    by (simp add: get_market_news_def split: sum.splits)
  show "queries_sent P kws m =
     map (\<lambda>k. \<lparr>param_q = k, param_pageSize = min m 20\<rparr>) (keywords_used kws)"
    by (simp add: queries_sent_def collect_terms_snd)
  show "url_key ` set (all_articles P kws m) = url_key ` set (offers P m 0 (keywords_used kws))"
    by (simp add: all_articles_first_seen first_seen_keys)
next
  assume "\<forall>i qy. P i qy = Failed"
  then have "all_articles P kws m = []"
    by (simp add: all_articles_first_seen offers_all_failed)
  then show "get_market_news P kws m = Inr []"
    by (simp add: get_market_news_def market_news_body_def py_prefix_def)
qed

theorem get_market_news_never_raises_witness:
  "(\<forall>i qy. failing_provider i qy = Failed) \<and>
   get_market_news failing_provider None 10 = Inr [] \<and>
   queries_sent failing_first_provider None 10 =
     [\<lparr>param_q = ''market'', param_pageSize = 10\<rparr>,
      \<lparr>param_q = ''economy'', param_pageSize = 10\<rparr>,
      \<lparr>param_q = ''finance'', param_pageSize = 10\<rparr>] \<and>
   map_sum id urls_of (get_market_news failing_first_provider None 10) =
     Inr [PStr ''economy'', PStr ''finance'']"
proof -
  have f: "\<forall>i qy. failing_provider i qy = Failed"
    by (simp add: failing_provider_def)
  with get_market_news_never_raises [of failing_provider None 10]
  have a: "get_market_news failing_provider None 10 = Inr []" by blast
  from get_market_news_never_raises [of failing_first_provider None 10]
  have b: "queries_sent failing_first_provider None 10 =
     [\<lparr>param_q = ''market'', param_pageSize = 10\<rparr>,
      \<lparr>param_q = ''economy'', param_pageSize = 10\<rparr>,
      \<lparr>param_q = ''finance'', param_pageSize = 10\<rparr>]"
    by (simp add: keywords_used_def default_keywords_def)
  have c: "map_sum id urls_of (get_market_news failing_first_provider None 10) =
     Inr [PStr ''economy'', PStr ''finance'']"
    by (simp add: get_market_news_def market_news_body_def all_articles_def keywords_used_def
       default_keywords_def failing_first_provider_def ok_data_def bare_article_def
       url_key_def py_prefix_def format_article_def urls_of_def py_get_def)
  from f a b c show ?thesis by simp
qed

text \<open>
  Claim C7 fails on the code: \<open>article.get(k, '')\<close> replaces a missing key only. An
  article whose \<open>description\<close> and \<open>author\<close> are \<open>null\<close> in the provider's answer is
  returned with both fields \<open>None\<close>.
\<close>

theorem format_article_keeps_null:
  "get_market_news null_description_provider (Some [''market'']) 10 =
     Inr [formatted_null_description] \<and>
   formatted_null_description ''description'' = Some PNone"
  by (simp add: get_market_news_def market_news_body_def all_articles_def keywords_used_def
       null_description_provider_def ok_data_def url_key_def py_prefix_def
       format_article_def formatted_null_description_def)

text \<open>
  What normalisation does guarantee: when no field the collector reads is \<open>null\<close>, every
  field of the formatted item is a string.
\<close>

lemma format_article_strings:
  assumes "raw_title a \<noteq> Null" "raw_description a \<noteq> Null" "raw_content a \<noteq> Null"
    "raw_url a \<noteq> Null" "raw_publishedAt a \<noteq> Null" "raw_author a \<noteq> Null"
    "raw_source a \<noteq> NullSource" "raw_source a \<noteq> SourceObj Null"
  shows "\<exists>formatted. format_article a = Inr formatted \<and>
     (\<forall>k\<in>{''title'', ''description'', ''content'', ''url'', ''source'', ''published_at'',
            ''author''}. \<exists>s. formatted k = Some (PStr s))"
proof -
  have str: "f \<noteq> Null \<Longrightarrow> \<exists>s. field_get_default f '''' = PStr s" for f
    by (cases f) simp_all
  from assms(7,8) obtain name where n: "source_name (raw_source a) = Inr (PStr name)"
    by (cases "raw_source a") (auto dest: str)
  from assms(1-6) [THEN str] n show ?thesis
    by (auto simp: format_article_def)
qed

section \<open>Properties of the detector\<close>

lemma reasons_of_empty:
  "reasons_of L rows vt pt = [] \<longleftrightarrow>
   \<not> (vt \<le> volume_ratio_of rows \<or> np_ge (np_abs (price_change_of rows)) pt)"
  by (simp add: reasons_of_def)

lemma judge_symbol: "judge L t df vt pt = Inr (Some h) \<Longrightarrow> symbol h = t"
  by (cases df) (auto split: if_splits)

lemma identify_hot_stocks_set:
  "set (identify_hot_stocks L stock_data vt pt) =
   {h. \<exists>(t, df)\<in>set stock_data. judge L t df vt pt = Inr (Some h)}"
proof (induction stock_data)
  case Nil
  then show ?case by simp
next
  case (Cons p stock_data)
  obtain t df where p: "p = (t, df)" by (cases p)
  show ?case
  proof (cases "judge L t df vt pt")
    case (Inl e)
    with Cons p show ?thesis by auto
  next
    case (Inr r)
    with Cons p show ?thesis by (cases r) auto
  qed
qed

lemma identify_hot_stocks_symbols:
  "map symbol (identify_hot_stocks L stock_data vt pt) =
   map fst (filter (\<lambda>(t, df). \<exists>h. judge L t df vt pt = Inr (Some h)) stock_data)"
proof (induction stock_data)
  case Nil
  then show ?case by simp
next
  case (Cons p stock_data)
  obtain t df where p: "p = (t, df)" by (cases p)
  show ?case
  proof (cases "judge L t df vt pt")
    case (Inl e)
    with Cons p show ?thesis by auto
  next
    case (Inr r)
    with Cons p show ?thesis by (cases r) (auto dest: judge_symbol)
  qed
qed

lemma hot_entry_iff:
  assumes d: "distinct (map fst stock_data)"
    and m: "(t, Frame rows) \<in> set stock_data"
  shows "h \<in> set (identify_hot_stocks L stock_data vt pt) \<and> symbol h = t \<longleftrightarrow>
         judge L t (Frame rows) vt pt = Inr (Some h)"
proof
  assume a: "h \<in> set (identify_hot_stocks L stock_data vt pt) \<and> symbol h = t"
  then obtain t' df where in': "(t', df) \<in> set stock_data"
    and j: "judge L t' df vt pt = Inr (Some h)"
    by (auto simp: identify_hot_stocks_set)
  from j a have "t' = t" using judge_symbol by blast
  with d m in' have "df = Frame rows" by (meson eq_key_imp_eq_value)
  with j \<open>t' = t\<close> show "judge L t (Frame rows) vt pt = Inr (Some h)" by simp
next
  assume j: "judge L t (Frame rows) vt pt = Inr (Some h)"
  with m have "h \<in> set (identify_hot_stocks L stock_data vt pt)"
    unfolding identify_hot_stocks_set by blast
  with j show "h \<in> set (identify_hot_stocks L stock_data vt pt) \<and> symbol h = t"
    using judge_symbol by blast
qed

lemma judge_frame_returns: "\<exists>r. judge L t (Frame rows) vt pt = Inr r"
  by simp

lemma flat_then_signals:
  "volume_ratio_of (flat_then c v) = v / 100"
  "price_change_of (flat_then c v) = Finite ((c - 10) / 10)"
  by (simp_all add: flat_then_def volume_ratio_of_def avg_volume_def mean_def price_change_of_def)

text \<open>
  Claim C3. For a symbol of \<open>stock_data\<close> whose frame has at least two rows, the symbol
  is in the output exactly when the volume ratio reaches the volume threshold or the
  absolute price change reaches the price threshold, both comparisons inclusive. The two
  tests are independent: the entry of the symbol carries the volume reason exactly when
  the first holds and the price reason exactly when the second holds, so it may carry
  both. (The keys of a dictionary are distinct; that is the first assumption.)
\<close>

theorem identify_hot_stocks_threshold_rule:
  assumes "distinct (map fst stock_data)"
    and "(t, Frame rows) \<in> set stock_data"
    and "2 \<le> length rows"
  shows "(t \<in> symbol ` set (identify_hot_stocks L stock_data vt pt) \<longleftrightarrow>
            vt \<le> volume_ratio_of rows \<or> np_ge (np_abs (price_change_of rows)) pt) \<and>
         (\<forall>h\<in>set (identify_hot_stocks L stock_data vt pt). symbol h = t \<longrightarrow>
            volume_ratio h = volume_ratio_of rows \<and>
            price_change h = price_change_of rows \<and>
            reasons h =
              (if vt \<le> volume_ratio_of rows then [volume_reason L (volume_ratio_of rows)]
               else []) @
              (if np_ge (np_abs (price_change_of rows)) pt
               then [price_reason L (price_change_of rows)] else []))"
proof -
  have "t \<in> symbol ` set (identify_hot_stocks L stock_data vt pt) \<longleftrightarrow>
        (\<exists>h. h \<in> set (identify_hot_stocks L stock_data vt pt) \<and> symbol h = t)"
    by auto
  also have "\<dots> \<longleftrightarrow> (\<exists>h. judge L t (Frame rows) vt pt = Inr (Some h))"
    using hot_entry_iff [OF assms(1,2)] by simp
  also have "\<dots> \<longleftrightarrow> reasons_of L rows vt pt \<noteq> []"
    using assms(3) by auto
  finally have included: "t \<in> symbol ` set (identify_hot_stocks L stock_data vt pt) \<longleftrightarrow>
    vt \<le> volume_ratio_of rows \<or> np_ge (np_abs (price_change_of rows)) pt"
    by (simp add: reasons_of_empty)
  have entry: "volume_ratio h = volume_ratio_of rows \<and>
            price_change h = price_change_of rows \<and>
            reasons h =
              (if vt \<le> volume_ratio_of rows then [volume_reason L (volume_ratio_of rows)]
               else []) @
              (if np_ge (np_abs (price_change_of rows)) pt
               then [price_reason L (price_change_of rows)] else [])"
    if "h \<in> set (identify_hot_stocks L stock_data vt pt)" "symbol h = t" for h
  proof -
    from that hot_entry_iff [OF assms(1,2), of h L vt pt]
    have "judge L t (Frame rows) vt pt = Inr (Some h)" by simp
    then show ?thesis
      by (auto simp: reasons_of_def split: if_splits)
  qed
  from included entry show ?thesis by blast
qed

theorem identify_hot_stocks_threshold_rule_witness:
  "map symbol (identify_hot_stocks sample_literals sample_stock_data 2 (5 / 100)) =
     [''both'', ''at''] \<and>
   map reasons (identify_hot_stocks sample_literals sample_stock_data 2 (5 / 100)) =
     [[''volume surge'', ''price move''], [''volume surge'']] \<and>
   ''both'' \<in> symbol ` set (identify_hot_stocks sample_literals sample_stock_data 2 (5 / 100)) \<and>
   ''at'' \<in> symbol ` set (identify_hot_stocks sample_literals sample_stock_data 2 (5 / 100)) \<and>
   ''below'' \<notin> symbol ` set (identify_hot_stocks sample_literals sample_stock_data 2 (5 / 100))"
proof -
  let ?hot = "identify_hot_stocks sample_literals sample_stock_data 2 (5 / 100)"
  have d: "distinct (map fst sample_stock_data)"
    by (simp add: sample_stock_data_def)
  have len: "2 \<le> length (flat_then c v)" for c v
    by (simp add: flat_then_def)
  have "(''both'', Frame (flat_then (106 / 10) 500)) \<in> set sample_stock_data"
    by (simp add: sample_stock_data_def)
  from identify_hot_stocks_threshold_rule [OF d this len, of sample_literals 2 "5 / 100"]
  have both: "''both'' \<in> symbol ` set ?hot"
    by (simp add: flat_then_signals)
  have "(''at'', Frame (flat_then 10 200)) \<in> set sample_stock_data"
    by (simp add: sample_stock_data_def)
  from identify_hot_stocks_threshold_rule [OF d this len, of sample_literals 2 "5 / 100"]
  have at: "''at'' \<in> symbol ` set ?hot"
    by (simp add: flat_then_signals)
  have "(''below'', Frame [\<lparr>Close = 10, Volume = 1000000\<rparr>, \<lparr>Close = 10, Volume = 1999999\<rparr>])
      \<in> set sample_stock_data"
    by (simp add: sample_stock_data_def)
  from identify_hot_stocks_threshold_rule [OF d this, of sample_literals 2 "5 / 100"]
  have below: "''below'' \<notin> symbol ` set ?hot"
    by (simp add: volume_ratio_of_def avg_volume_def mean_def price_change_of_def)
  have run: "map symbol (identify_hot_stocks sample_literals sample_stock_data 2 (5 / 100)) =
     [''both'', ''at''] \<and>
   map reasons (identify_hot_stocks sample_literals sample_stock_data 2 (5 / 100)) =
     [[''volume surge'', ''price move''], [''volume surge'']]"
    by (simp add: sample_stock_data_def flat_then_def reasons_of_def volume_ratio_of_def
         avg_volume_def mean_def price_change_of_def sample_literals_def)
  from run both at below show ?thesis by simp
qed

text \<open>
  Claim C4, as the code has it. For a frame of at least two rows whose volumes but the
  last have mean zero, the volume ratio is 0 and judging the symbol does not raise; for a
  positive volume threshold the symbol is in the output exactly when the price test
  fires.
\<close>

theorem zero_trailing_mean_gives_no_volume_signal:
  assumes "distinct (map fst stock_data)"
    and "(t, Frame rows) \<in> set stock_data"
    and "2 \<le> length rows"
    and "avg_volume rows = 0"
  shows "volume_ratio_of rows = 0 \<and>
         (\<exists>r. judge L t (Frame rows) vt pt = Inr r) \<and>
         (0 < vt \<longrightarrow>
            (t \<in> symbol ` set (identify_hot_stocks L stock_data vt pt) \<longleftrightarrow>
               np_ge (np_abs (price_change_of rows)) pt))"
proof -
  have zero: "volume_ratio_of rows = 0"
    using assms(4) by (simp add: volume_ratio_of_def)
  have "t \<in> symbol ` set (identify_hot_stocks L stock_data vt pt) \<longleftrightarrow>
        (\<exists>h. h \<in> set (identify_hot_stocks L stock_data vt pt) \<and> symbol h = t)"
    by auto
  also have "\<dots> \<longleftrightarrow> (\<exists>h. judge L t (Frame rows) vt pt = Inr (Some h))"
    using hot_entry_iff [OF assms(1,2)] by simp
  also have "\<dots> \<longleftrightarrow> reasons_of L rows vt pt \<noteq> []"
    using assms(3) by auto
  finally have "t \<in> symbol ` set (identify_hot_stocks L stock_data vt pt) \<longleftrightarrow>
      vt \<le> 0 \<or> np_ge (np_abs (price_change_of rows)) pt"
    by (simp add: reasons_of_empty zero)
  with zero judge_frame_returns [of L t rows vt pt] show ?thesis by auto
qed

theorem zero_trailing_mean_gives_no_volume_signal_witness:
  "volume_ratio_of silent_rows = 0 \<and>
   volume_ratio_of silent_jump_rows = 0 \<and>
   ''quiet'' \<notin> symbol ` set (identify_hot_stocks sample_literals silent_stock_data 2 (5 / 100)) \<and>
   ''jump'' \<in> symbol ` set (identify_hot_stocks sample_literals silent_stock_data 2 (5 / 100))"
proof -
  have d: "distinct (map fst silent_stock_data)"
    by (simp add: silent_stock_data_def)
  have q: "(''quiet'', Frame silent_rows) \<in> set silent_stock_data"
    and j: "(''jump'', Frame silent_jump_rows) \<in> set silent_stock_data"
    by (simp_all add: silent_stock_data_def)
  have lq: "2 \<le> length silent_rows" and lj: "2 \<le> length silent_jump_rows"
    by (simp_all add: silent_rows_def silent_jump_rows_def)
  have aq: "avg_volume silent_rows = 0" and aj: "avg_volume silent_jump_rows = 0"
    by (simp_all add: silent_rows_def silent_jump_rows_def avg_volume_def mean_def)
  have pq: "price_change_of silent_rows = Finite 0"
    and pj: "price_change_of silent_jump_rows = Finite (1 / 10)"
    by (simp_all add: silent_rows_def silent_jump_rows_def price_change_of_def)
  from zero_trailing_mean_gives_no_volume_signal [OF d q lq aq, of sample_literals 2 "5 / 100"]
  have 1: "volume_ratio_of silent_rows = 0 \<and>
    ''quiet'' \<notin> symbol ` set (identify_hot_stocks sample_literals silent_stock_data 2 (5 / 100))"
    by (simp add: pq)
  from zero_trailing_mean_gives_no_volume_signal [OF d j lj aj, of sample_literals 2 "5 / 100"]
  have 2: "volume_ratio_of silent_jump_rows = 0 \<and>
    ''jump'' \<in> symbol ` set (identify_hot_stocks sample_literals silent_stock_data 2 (5 / 100))"
    by (simp add: pj)
  from 1 2 show ?thesis by simp
qed

text \<open>
  Claim C4 as the specification words it has no condition on the threshold, and fails for
  the volume threshold 0: the ratio 0 reaches it, and a symbol with a zero trailing mean
  and an unchanged price is returned with the volume reason.
\<close>

theorem zero_trailing_mean_gives_no_volume_signal_counterexample:
  "identify_hot_stocks sample_literals [(''quiet'', Frame silent_rows)] 0 (5 / 100) =
     [\<lparr>symbol = ''quiet'', volume_ratio = 0, price_change = Finite 0,
       reasons = [''volume surge''], related_news = None\<rparr>] \<and>
   avg_volume silent_rows = 0 \<and>
   \<not> np_ge (np_abs (price_change_of silent_rows)) (5 / 100)"
  by (simp add: silent_rows_def reasons_of_def volume_ratio_of_def avg_volume_def mean_def
       price_change_of_def sample_literals_def)

section \<open>Properties of the cross-linker\<close>

lemma py_in_sublist: "py_in needle haystack \<longleftrightarrow> sublist needle haystack"
proof (induction haystack)
  case Nil
  then show ?case by simp
next
  case (Cons c cs)
  show ?case
  proof (cases needle)
    case Nil
    then show ?thesis by simp
  next
    case (Cons x xs)
    with Cons.IH show ?thesis by (simp add: sublist_code(3))
  qed
qed

lemma py_split_first:
  "\<exists>pieces. py_split sep s = takeWhile (\<lambda>c. c \<noteq> sep) s # pieces"
  by (induction s) auto

lemma first_piece_takeWhile:
  "first_piece stock_symbol = takeWhile (\<lambda>c. c \<noteq> CHR ''.'') stock_symbol"
  using py_split_first [of "CHR ''.''" stock_symbol] by (auto simp: first_piece_def)

lemma first_piece_in_symbol: "sublist (first_piece stock_symbol) stock_symbol"
proof -
  have "prefix (takeWhile (\<lambda>c. c \<noteq> CHR ''.'') stock_symbol) stock_symbol"
    by (rule takeWhile_is_prefix)
  then show ?thesis by (simp add: first_piece_takeWhile)
qed

lemma link_test:
  "(py_in (first_piece stock_symbol) title \<or> py_in stock_symbol title) \<longleftrightarrow>
   sublist (first_piece stock_symbol) title"
  using first_piece_in_symbol [of stock_symbol]
  by (auto simp: py_in_sublist intro: sublist_order.order.trans)

lemma link_loop_filter:
  assumes "\<forall>a\<in>set news. a ''title'' \<noteq> Some PNone"
  shows "link_loop stock_symbol news related =
         Inr (related @ map (\<lambda>a. linked a (title_of a))
                (filter (\<lambda>a. sublist (first_piece stock_symbol) (py_str (title_of a))) news))"
  using assms
proof (induction news arbitrary: related)
  case Nil
  then show ?case by simp
next
  case (Cons a news)
  from Cons.prems obtain title where t: "py_get_default a ''title'' '''' = PStr title"
    by (cases "a ''title''"; cases "py_get_default a ''title'' ''''")
       (auto simp: py_get_default_def)
  from Cons.prems have "\<forall>a\<in>set news. a ''title'' \<noteq> Some PNone" by simp
  from Cons.IH [OF this] t show ?case
    by (simp add: link_test title_of_def)
qed

text \<open>
  Claim C5, as the code has it. \<open>stock_symbol.split('.')[0]\<close> is the text before the
  first dot of the symbol (the whole symbol when it has none). For news whose titles are
  strings or absent, \<open>link_news_to_stock\<close> returns, in the order of the input, the
  entries of exactly the articles whose title has the symbol or that first piece as a
  literal, case-sensitive substring; the result is the empty list when none has.
\<close>

theorem link_news_to_stock_first_piece_rule:
  "first_piece stock_symbol = takeWhile (\<lambda>c. c \<noteq> CHR ''.'') stock_symbol \<and>
   ((\<forall>a\<in>set news. a ''title'' \<noteq> Some PNone) \<longrightarrow>
      link_news_to_stock stock_symbol news =
        Inr (map (\<lambda>a. linked a (title_of a))
               (filter (\<lambda>a. sublist stock_symbol (py_str (title_of a)) \<or>
                             sublist (first_piece stock_symbol) (py_str (title_of a)))
                  news)))"
proof (intro conjI impI)
  show "first_piece stock_symbol = takeWhile (\<lambda>c. c \<noteq> CHR ''.'') stock_symbol"
    by (rule first_piece_takeWhile)
next
  assume a: "\<forall>a\<in>set news. a ''title'' \<noteq> Some PNone"
  have "(sublist stock_symbol title \<or> sublist (first_piece stock_symbol) title) \<longleftrightarrow>
        sublist (first_piece stock_symbol) title" for title
    using link_test [of stock_symbol title] by (auto simp: py_in_sublist)
  with link_loop_filter [OF a, of stock_symbol "[]"]
  show "link_news_to_stock stock_symbol news =
        Inr (map (\<lambda>a. linked a (title_of a))
               (filter (\<lambda>a. sublist stock_symbol (py_str (title_of a)) \<or>
                             sublist (first_piece stock_symbol) (py_str (title_of a)))
                  news))"
    by (simp add: link_news_to_stock_def)
qed

theorem link_news_to_stock_first_piece_rule_witness:
  "first_piece ''7203.T'' = ''7203'' \<and>
   link_news_to_stock ''7203.T'' toyota_news =
     Inr [\<lparr>news_title = PStr ''Toyota (7203) reports record profit'',
           news_summary = PStr ''Profit up.'', news_url = PStr ''https://n/1''\<rparr>] \<and>
   link_news_to_stock ''6758.T'' toyota_news = Inr []"
proof -
  have ok: "\<forall>a\<in>set toyota_news. a ''title'' \<noteq> Some PNone"
    by (simp add: toyota_news_def)
  have fp: "first_piece ''7203.T'' = ''7203''" "first_piece ''6758.T'' = ''6758''"
    using link_news_to_stock_first_piece_rule [of "''7203.T''" "[]"]
          link_news_to_stock_first_piece_rule [of "''6758.T''" "[]"]
    by simp_all
  from link_news_to_stock_first_piece_rule [of "''7203.T''" toyota_news] ok
  have a: "link_news_to_stock ''7203.T'' toyota_news =
     Inr [\<lparr>news_title = PStr ''Toyota (7203) reports record profit'',
           news_summary = PStr ''Profit up.'', news_url = PStr ''https://n/1''\<rparr>]"
    by (simp add: fp toyota_news_def title_of_def py_get_default_def linked_def sublist_code)
  from link_news_to_stock_first_piece_rule [of "''6758.T''" toyota_news] ok
  have b: "link_news_to_stock ''6758.T'' toyota_news = Inr []"
    by (simp add: fp toyota_news_def title_of_def py_get_default_def linked_def sublist_code)
  from fp a b show ?thesis by simp
qed

text \<open>
  Claim C5 as the specification words it strips the text after the last dot, and fails
  for a symbol with two dots: \<open>AB.C.D\<close> is linked to a title that contains neither
  \<open>AB.C.D\<close> nor \<open>AB.C\<close>, because the code tests the piece \<open>AB\<close>.
\<close>

theorem link_news_to_stock_last_dot_counterexample:
  "link_news_to_stock ''AB.C.D'' [[''title'' \<mapsto> PStr ''AB rallies'']] =
     Inr [\<lparr>news_title = PStr ''AB rallies'', news_summary = PStr '''', news_url = PStr ''''\<rparr>] \<and>
   without_exchange_suffix ''AB.C.D'' = ''AB.C'' \<and>
   \<not> py_in ''AB.C.D'' ''AB rallies'' \<and>
   \<not> py_in (without_exchange_suffix ''AB.C.D'') ''AB rallies''"
  by (simp add: link_news_to_stock_def first_piece_def py_get_default_def linked_def
       without_exchange_suffix_def)

text \<open>
  Claim C10, as the code has it. Called with the empty symbol, \<open>link_news_to_stock\<close>
  links every article of an input whose titles are strings or absent, in order: the empty
  string is a substring of every title.
\<close>

theorem link_news_to_stock_empty_symbol:
  "(\<forall>a\<in>set news. a ''title'' \<noteq> Some PNone) \<Longrightarrow>
   link_news_to_stock '''' news = Inr (map (\<lambda>a. linked a (title_of a)) news)"
  using link_loop_filter [of news "''''" "[]"]
  by (simp add: link_news_to_stock_def first_piece_def)

theorem link_news_to_stock_empty_symbol_witness:
  "link_news_to_stock '''' toyota_news =
     Inr [\<lparr>news_title = PStr ''Toyota (7203) reports record profit'',
           news_summary = PStr ''Profit up.'', news_url = PStr ''https://n/1''\<rparr>,
          \<lparr>news_title = PStr ''Sony gains'', news_summary = PStr '''',
           news_url = PStr ''https://n/2''\<rparr>,
          \<lparr>news_title = PStr '''', news_summary = PStr ''untitled'', news_url = PStr ''''\<rparr>]"
proof -
  have ok: "\<forall>a\<in>set toyota_news. a ''title'' \<noteq> Some PNone"
    by (simp add: toyota_news_def)
  from link_news_to_stock_empty_symbol [OF ok] show ?thesis
    by (simp add: toyota_news_def title_of_def py_get_default_def linked_def)
qed

text \<open>
  Claim C10 as the specification words it, for every input, fails when an article has the
  title \<open>None\<close> (a \<open>null\<close> title of the provider is kept by the collector): the test
  \<open>'' in title\<close> raises \<open>TypeError\<close> and no article is linked.
\<close>

theorem link_news_to_stock_empty_symbol_counterexample:
  "link_news_to_stock ''''
     [[''title'' \<mapsto> PStr ''Sony gains''],
      [''title'' \<mapsto> PNone, ''url'' \<mapsto> PStr ''https://n/3'']] = Inl TypeError"
  by (simp add: link_news_to_stock_def py_get_default_def first_piece_def)


section \<open>Properties of the report composer\<close>
















end
